theory Spec2Isabelle
  imports Main
begin

section \<open>Data model\<close>

text \<open>
  An instant (\<open>datetime\<close>) is its number of microseconds since the epoch, a duration
  (\<open>timedelta\<close>) its number of microseconds: both types count in microseconds. The
  clock is not read by the model: every function that calls \<open>datetime.utcnow()\<close> takes
  the instant as an argument, an instant within the range of \<open>datetime\<close>.
\<close>

type_synonym time = int

definition seconds :: "int \<Rightarrow> int" where
  "seconds s = 1000000 * s"

definition timedelta_minutes :: "int \<Rightarrow> int" where
  "timedelta_minutes m = seconds (60 * m)"

text \<open>
  \<open>datetime.min\<close> is 0001-01-01 00:00:00 and \<open>datetime.max\<close> is
  9999-12-31 23:59:59.999999.
\<close>

definition datetime_min :: time where
  "datetime_min = seconds (- 62135596800)"

definition datetime_max :: time where
  "datetime_max = seconds 253402300799 + 999999"

text \<open>
  \<open>calendar.timegm(d.utctimetuple())\<close>: the whole seconds of an instant, its
  microseconds dropped.
\<close>

definition timegm :: "time \<Rightarrow> int" where
  "timegm t = t div 1000000"

text \<open>
  The values a claims dictionary holds. \<open>PyNone\<close> is Python's \<open>None\<close>, which is
  also what \<open>dict.get\<close> answers for a key that is not there. Strings are ASCII.
\<close>

datatype pyval = PyStr string | PyInt int | PyBool bool | PyNone

type_synonym claims = "string \<rightharpoonup> pyval"

definition dict_get :: "claims \<Rightarrow> string \<Rightarrow> pyval" where
  "dict_get d k = (case d k of None \<Rightarrow> PyNone | Some v \<Rightarrow> v)"

text \<open>The columns of \<open>models.User\<close> (table \<open>users\<close>).\<close>

record user =
  user_id :: int
  name :: string
  email :: string
  hashed_password :: string
  age :: int
  is_active :: bool
  created_at :: time
  updated_at :: "time option"

text \<open>
  Python exceptions of the program. \<open>jose.JWTError\<close> carries the reason of the
  failure; the library's subclasses \<open>ExpiredSignatureError\<close> and \<open>JWTClaimsError\<close>
  are the reasons \<open>ExpiredTimestamp\<close> and \<open>InvalidClaims\<close>. \<open>TypeError\<close>,
  \<open>ValueError\<close> and \<open>OverflowError\<close> are Python's own; \<open>NullPasswordError\<close> and
  \<open>PasswordSizeError\<close> are passlib's; \<open>HTTPException\<close> is FastAPI's, with its
  status code, detail and headers.
\<close>

datatype jwt_failure =
  MalformedStructure | UnsupportedAlgorithm | SignatureMismatch | ExpiredTimestamp
| InvalidClaims

datatype exn =
  JWTError jwt_failure
| TypeError
| ValueError
| OverflowError
| NullPasswordError
| PasswordSizeError
| HTTPException (status_code: nat) (detail: string) (headers: "(string \<times> string) list option")

text \<open>
  \<open>datetime + timedelta\<close> raises \<open>OverflowError\<close> when the sum leaves the range of
  \<open>datetime\<close>.
\<close>

definition datetime_add :: "time \<Rightarrow> int \<Rightarrow> exn + time" where
  "datetime_add t d =
     (if datetime_min \<le> t + d \<and> t + d \<le> datetime_max then Inr (t + d)
      else Inl OverflowError)"

section \<open>Configuration (auth.py, lines 16-18)\<close>

definition SECRET_KEY :: string where
  "SECRET_KEY = ''tu-clave-super-secreta-cambiar-en-produccion-123456789''"

definition ALGORITHM :: string where
  "ALGORITHM = ''HS256''"

definition ACCESS_TOKEN_EXPIRE_MINUTES :: int where
  "ACCESS_TOKEN_EXPIRE_MINUTES = 30"

section \<open>The JWT library\<close>

text \<open>
  \<open>jose.jwt\<close> is a third-party library; the repository only calls it. Its tokens are
  modelled symbolically, as in the protocol models of Isabelle's \<open>HOL/Auth\<close>: a token
  is either the signed serialisation of a payload (a JSON object) under a key and an
  algorithm, or some other string, of which nothing is known but its text. Signatures
  are perfect: a signature verifies under the key that made it and under no other.
\<close>

datatype token =
  JWS claims string string
| NotJWS string

text \<open>
  Modelled from the spec: \<open>jwt.encode\<close> of the library python-jose, which is not part
  of the repository. "Signs the payload with a symmetric secret using a fixed, published
  algorithm identifier."
\<close>

definition jwt_encode :: "claims \<Rightarrow> string \<Rightarrow> string \<Rightarrow> token" where
  "jwt_encode payload key algorithm = JWS payload key algorithm"

text \<open>
  Python's \<open>int(v)\<close>, which the library applies to the claims \<open>iat\<close>, \<open>nbf\<close> and
  \<open>exp\<close>: an integer is itself, a boolean is 0 or 1, a string is read as a decimal
  number (blanks around it, a sign, digits with single underscores between them) or
  raises \<open>ValueError\<close>, and \<open>None\<close> raises \<open>TypeError\<close>.
\<close>

definition digit_of :: "char \<Rightarrow> int option" where
  "digit_of c = map_of (zip ''0123456789'' [0, 1, 2, 3, 4, 5, 6, 7, 8, 9]) c"

definition is_space :: "char \<Rightarrow> bool" where
  "is_space c =
     (c \<in> {CHR '' '', CHR 0x09, CHR 0x0A, CHR 0x0B, CHR 0x0C, CHR 0x0D,
            CHR 0x1C, CHR 0x1D, CHR 0x1E, CHR 0x1F})"

definition strip :: "string \<Rightarrow> string" where
  "strip s = rev (dropWhile is_space (rev (dropWhile is_space s)))"

fun digits_from :: "int \<Rightarrow> string \<Rightarrow> int option" where
  "digits_from acc [] = Some acc"
| "digits_from acc [c] =
     (case digit_of c of None \<Rightarrow> None | Some v \<Rightarrow> Some (10 * acc + v))"
| "digits_from acc (c # d # ds) =
     (if c = CHR ''_'' then
        (case digit_of d of None \<Rightarrow> None | Some v \<Rightarrow> digits_from (10 * acc + v) ds)
      else
        (case digit_of c of None \<Rightarrow> None | Some v \<Rightarrow> digits_from (10 * acc + v) (d # ds)))"

definition unsigned_of :: "string \<Rightarrow> int option" where
  "unsigned_of s =
     (case s of
        [] \<Rightarrow> None
      | c # cs \<Rightarrow> (case digit_of c of None \<Rightarrow> None | Some v \<Rightarrow> digits_from v cs))"

definition int_of_str :: "string \<Rightarrow> int option" where
  "int_of_str s =
     (case strip s of
        [] \<Rightarrow> None
      | c # cs \<Rightarrow>
          if c = CHR ''-'' then map_option uminus (unsigned_of cs)
          else if c = CHR ''+'' then unsigned_of cs
          else unsigned_of (c # cs))"

definition py_int :: "pyval \<Rightarrow> exn + int" where
  "py_int v =
     (case v of
        PyInt i \<Rightarrow> Inr i
      | PyBool b \<Rightarrow> Inr (if b then 1 else 0)
      | PyStr s \<Rightarrow> (case int_of_str s of None \<Rightarrow> Inl ValueError | Some i \<Rightarrow> Inr i)
      | PyNone \<Rightarrow> Inl TypeError)"

text \<open>
  The checks of the registered claims that \<open>jwt.decode\<close> makes with its default
  options and no audience, issuer, subject or access token, which is how
  \<open>verify_token\<close> calls it. Each answers the exception it raises, or \<open>None\<close>.
  The library catches the \<open>ValueError\<close> of \<open>int\<close> and raises \<open>JWTClaimsError\<close>
  for it; it does not catch the \<open>TypeError\<close>. \<open>now\<close> is the clock in whole seconds.
\<close>

definition validate_iat :: "claims \<Rightarrow> exn option" where
  "validate_iat c =
     (case c ''iat'' of
        None \<Rightarrow> None
      | Some v \<Rightarrow>
          (case py_int v of
             Inl ValueError \<Rightarrow> Some (JWTError InvalidClaims)
           | Inl e \<Rightarrow> Some e
           | Inr iat \<Rightarrow> None))"

definition validate_nbf :: "claims \<Rightarrow> int \<Rightarrow> exn option" where
  "validate_nbf c now =
     (case c ''nbf'' of
        None \<Rightarrow> None
      | Some v \<Rightarrow>
          (case py_int v of
             Inl ValueError \<Rightarrow> Some (JWTError InvalidClaims)
           | Inl e \<Rightarrow> Some e
           | Inr nbf \<Rightarrow> if nbf > now then Some (JWTError InvalidClaims) else None))"

definition validate_exp :: "claims \<Rightarrow> int \<Rightarrow> exn option" where
  "validate_exp c now =
     (case c ''exp'' of
        None \<Rightarrow> None
      | Some v \<Rightarrow>
          (case py_int v of
             Inl ValueError \<Rightarrow> Some (JWTError InvalidClaims)
           | Inl e \<Rightarrow> Some e
           | Inr exp \<Rightarrow> if exp < now then Some (JWTError ExpiredTimestamp) else None))"

text \<open>
  With no audience given, a token that carries an \<open>aud\<close> claim is refused; so is one
  with an \<open>at_hash\<close> claim, there being no access token to compare it with. \<open>sub\<close>
  and \<open>jti\<close> must be strings where they are present.
\<close>

definition validate_aud :: "claims \<Rightarrow> exn option" where
  "validate_aud c = (if c ''aud'' = None then None else Some (JWTError InvalidClaims))"

definition validate_str :: "claims \<Rightarrow> string \<Rightarrow> exn option" where
  "validate_str c k =
     (case c k of
        None \<Rightarrow> None
      | Some (PyStr s) \<Rightarrow> None
      | Some _ \<Rightarrow> Some (JWTError InvalidClaims))"

definition validate_at_hash :: "claims \<Rightarrow> exn option" where
  "validate_at_hash c = (if c ''at_hash'' = None then None else Some (JWTError InvalidClaims))"

fun first_raised :: "exn option list \<Rightarrow> exn option" where
  "first_raised [] = None"
| "first_raised (None # rs) = first_raised rs"
| "first_raised (Some e # rs) = Some e"

definition validate_claims :: "claims \<Rightarrow> int \<Rightarrow> exn option" where
  "validate_claims c now =
     first_raised
       [validate_iat c, validate_nbf c now, validate_exp c now, validate_aud c,
        validate_str c ''sub'', validate_str c ''jti'', validate_at_hash c]"

text \<open>
  Modelled from the spec: \<open>jwt.decode\<close> of the library python-jose, which is not part
  of the repository. It "verifies signature and expiry" and fails on "malformed
  structure, signature mismatch, expired timestamp, unsupported algorithm"; a token is
  expired "once the current time exceeds" its expiry, both in whole seconds. After the
  signature it checks the registered claims as above, and answers the payload as it is.
\<close>

definition jwt_decode :: "token \<Rightarrow> string \<Rightarrow> string list \<Rightarrow> time \<Rightarrow> exn + claims" where
  "jwt_decode tok key algorithms utcnow =
     (case tok of
        NotJWS s \<Rightarrow> Inl (JWTError MalformedStructure)
      | JWS payload k alg \<Rightarrow>
          if alg \<notin> set algorithms then Inl (JWTError UnsupportedAlgorithm)
          else if k \<noteq> key then Inl (JWTError SignatureMismatch)
          else (case validate_claims payload (timegm utcnow) of
                  Some e \<Rightarrow> Inl e
                | None \<Rightarrow> Inr payload))"

section \<open>Token codec (auth.py, lines 42-60)\<close>

text \<open>
  \<open>create_access_token\<close> on values. \<open>if expires_delta:\<close> tests the truth value of an
  \<open>Optional[timedelta]\<close>: \<open>None\<close> is false, and so is \<open>timedelta(0)\<close>; every other
  duration is true. The sum of line 46 or 48 may raise \<open>OverflowError\<close>.
  \<open>jwt.encode\<close> writes a \<open>datetime\<close> under \<open>exp\<close> as its whole seconds; the model
  stores that number.
\<close>

definition create_access_token :: "claims \<Rightarrow> int option \<Rightarrow> time \<Rightarrow> exn + token" where
  "create_access_token data expires_delta utcnow =
     (let to_encode = data in
      case (case expires_delta of
              Some d \<Rightarrow>
                if d \<noteq> 0 then datetime_add utcnow d
                else datetime_add utcnow (timedelta_minutes 15)
            | None \<Rightarrow> datetime_add utcnow (timedelta_minutes 15)) of
        Inl e \<Rightarrow> Inl e
      | Inr expire \<Rightarrow>
          (let to_encode = to_encode(''exp'' \<mapsto> PyInt (timegm expire));
               encoded_jwt = jwt_encode to_encode SECRET_KEY ALGORITHM
           in Inr encoded_jwt))"

text \<open>
  \<open>verify_token\<close>: the \<open>except JWTError\<close> clause catches that class only; any other
  exception leaves the function.
\<close>

definition verify_token :: "token \<Rightarrow> time \<Rightarrow> exn + claims option" where
  "verify_token tok utcnow =
     (case jwt_decode tok SECRET_KEY [ALGORITHM] utcnow of
        Inr payload \<Rightarrow> Inr (Some payload)
      | Inl (JWTError r) \<Rightarrow> Inr None
      | Inl e \<Rightarrow> Inl e)"

text \<open>
  \<open>create_access_token\<close> on a store of dictionary objects, for what it does to its
  caller's dictionary. A store is the list of the dictionaries allocated so far and a
  reference is a position in it; \<open>dict.copy\<close> allocates a new dictionary with the same
  entries, \<open>dict.update\<close> writes into the dictionary its reference names. The function
  answers the token, or the exception it raises, and the store it leaves.
\<close>

type_synonym ref = nat

type_synonym store = "claims list"

definition dict_copy :: "store \<Rightarrow> ref \<Rightarrow> ref \<times> store" where
  "dict_copy st r = (length st, st @ [st ! r])"

definition dict_update :: "store \<Rightarrow> ref \<Rightarrow> string \<Rightarrow> pyval \<Rightarrow> store" where
  "dict_update st r k v = st[r := (st ! r)(k \<mapsto> v)]"

definition create_access_token_st ::
  "store \<Rightarrow> ref \<Rightarrow> int option \<Rightarrow> time \<Rightarrow> (exn + token) \<times> store" where
  "create_access_token_st st data expires_delta utcnow =
     (let (to_encode, st1) = dict_copy st data in
      case (case expires_delta of
              Some d \<Rightarrow>
                if d \<noteq> 0 then datetime_add utcnow d
                else datetime_add utcnow (timedelta_minutes 15)
            | None \<Rightarrow> datetime_add utcnow (timedelta_minutes 15)) of
        Inl e \<Rightarrow> (Inl e, st1)
      | Inr expire \<Rightarrow>
          (let st2 = dict_update st1 to_encode ''exp'' (PyInt (timegm expire));
               encoded_jwt = jwt_encode (st2 ! to_encode) SECRET_KEY ALGORITHM
           in (Inr encoded_jwt, st2)))"

section \<open>Credential hasher (auth.py, lines 21-36)\<close>

text \<open>
  \<open>pwd_context\<close> is an object of the third-party library passlib. The functions that
  use it take it as an argument: a context is the pair of its two methods, \<open>verify\<close>
  and \<open>hash\<close>, the latter with the salt it draws made explicit.
\<close>

record crypt_context =
  verify :: "string \<Rightarrow> string \<Rightarrow> bool"
  hash :: "string \<Rightarrow> string \<Rightarrow> exn + string"

definition verify_password :: "crypt_context \<Rightarrow> string \<Rightarrow> string \<Rightarrow> bool" where
  "verify_password pwd_context plain_password hashed = verify pwd_context plain_password hashed"

definition get_password_hash :: "crypt_context \<Rightarrow> string \<Rightarrow> string \<Rightarrow> exn + string" where
  "get_password_hash pwd_context salt password = hash pwd_context salt password"

text \<open>
  Modelled from the spec: the context \<open>CryptContext(schemes=["bcrypt"])\<close> of the
  library passlib, which is not part of the repository. \<open>hash\<close> is "salted", its
  "output differs across calls for the same input (salt randomization) yet still
  verifies correctly"; \<open>verify\<close> "returns false (not an error) for malformed
  hash_string", and where the library raises it "fails closed (treated as non-match)".
  The hash is symbolic: the identifier of the scheme and its cost, the 22 characters of
  the salt, and in place of the digest the bytes that bcrypt digests, which are the first
  72 of the secret. Hashing is perfect: two digests are equal only when those bytes are.
  passlib refuses a secret of more than 4096 characters and one with a NUL character.
\<close>

definition bcrypt_ident :: string where
  "bcrypt_ident = ''$2b$12$''"

definition MAX_PASSWORD_SIZE :: nat where
  "MAX_PASSWORD_SIZE = 4096"

definition bcrypt_context :: crypt_context where
  "bcrypt_context =
     \<lparr>verify = (\<lambda>secret hashed.
         length secret \<le> MAX_PASSWORD_SIZE \<and> CHR 0x00 \<notin> set secret \<and>
         take 7 hashed = bcrypt_ident \<and> 29 \<le> length hashed \<and>
         drop 29 hashed = take 72 secret),
       hash = (\<lambda>salt secret.
         if MAX_PASSWORD_SIZE < length secret then Inl PasswordSizeError
         else if CHR 0x00 \<in> set secret then Inl NullPasswordError
         else Inr (bcrypt_ident @ salt @ take 72 secret))\<rparr>"

section \<open>Principal resolver (auth.py, lines 66-81)\<close>

text \<open>
  The account store \<open>db\<close> is the \<open>users\<close> table, a list of rows;
  \<open>db.query(UserModel).filter(UserModel.email == email).first()\<close> is the first row
  with that email, or \<open>None\<close>. A row object is true in \<open>if not user\<close>; only
  \<open>None\<close> is false there.
\<close>

definition authenticate_user ::
  "crypt_context \<Rightarrow> user list \<Rightarrow> string \<Rightarrow> string \<Rightarrow> user option" where
  "authenticate_user pwd_context db email_arg password =
     (case find (\<lambda>u. email u = email_arg) db of
        None \<Rightarrow> None
      | Some u \<Rightarrow>
          if \<not> verify_password pwd_context password (hashed_password u) then None
          else Some u)"

text \<open>
  \<open>get_user_by_email\<close> is called with whatever the \<open>sub\<close> claim holds; a value that is
  not a string equals no email.
\<close>

definition get_user_by_email :: "user list \<Rightarrow> pyval \<Rightarrow> user option" where
  "get_user_by_email db email_arg = find (\<lambda>u. PyStr (email u) = email_arg) db"

definition get_user_by_id :: "user list \<Rightarrow> int \<Rightarrow> user option" where
  "get_user_by_id db uid = find (\<lambda>u. user_id u = uid) db"

section \<open>Session gate (auth.py, lines 87-125)\<close>

definition credentials_exception :: exn where
  "credentials_exception =
     HTTPException 401 ''No se pudieron validar las credenciales''
       (Some [(''WWW-Authenticate'', ''Bearer'')])"

definition get_current_user :: "token \<Rightarrow> user list \<Rightarrow> time \<Rightarrow> exn + user" where
  "get_current_user tok db utcnow =
     (case verify_token tok utcnow of
        Inl e \<Rightarrow> Inl e
      | Inr None \<Rightarrow> Inl credentials_exception
      | Inr (Some payload) \<Rightarrow>
          (let email_sub = dict_get payload ''sub'' in
           if email_sub = PyNone then Inl credentials_exception
           else (case get_user_by_email db email_sub of
                   None \<Rightarrow> Inl credentials_exception
                 | Some u \<Rightarrow> Inr u)))"

definition get_current_active_user :: "user \<Rightarrow> exn + user" where
  "get_current_active_user current_user =
     (if \<not> is_active current_user then Inl (HTTPException 400 ''Usuario inactivo'' None)
      else Inr current_user)"

section \<open>Login (main.py, lines 84-95)\<close>

text \<open>
  Line 86 is \<open>user = await authenticate_user(...)\<close>. \<open>authenticate_user\<close> is a plain
  \<open>def\<close>: its call answers an account or \<open>None\<close>, and \<open>await\<close> of such a value,
  which is no awaitable, raises \<open>TypeError\<close>.
\<close>

definition await_value :: "user option \<Rightarrow> exn + user option" where
  "await_value v = Inl TypeError"

record token_response =
  access_token :: token
  token_type :: string

definition login_user ::
  "crypt_context \<Rightarrow> user list \<Rightarrow> string \<Rightarrow> string \<Rightarrow> time \<Rightarrow> exn + token_response" where
  "login_user pwd_context db username password utcnow =
     (case await_value (authenticate_user pwd_context db username password) of
        Inl e \<Rightarrow> Inl e
      | Inr None \<Rightarrow>
          Inl (HTTPException 401 ''Email o password incorrectos''
                 (Some [(''WWW-Authenticate'', ''Bearer'')]))
      | Inr (Some u) \<Rightarrow>
          (let access_token_expires = timedelta_minutes ACCESS_TOKEN_EXPIRE_MINUTES in
           case create_access_token [''sub'' \<mapsto> PyStr (email u)]
                  (Some access_token_expires) utcnow of
             Inl e \<Rightarrow> Inl e
           | Inr tok \<Rightarrow> Inr \<lparr>access_token = tok, token_type = ''bearer''\<rparr>))"

section \<open>Example data\<close>

text \<open>
  Two accounts and a stand-in for the password context, for evaluating the functions
  above on concrete inputs. The stand-in "hashes" by prefixing; it has no salt.
\<close>

definition alice :: user where
  "alice = \<lparr>user_id = 1, name = ''Alice'', email = ''a@x.com'',
            hashed_password = ''hash-of-secret1'', age = 30, is_active = True,
            created_at = 0, updated_at = None\<rparr>"

definition bob :: user where
  "bob = \<lparr>user_id = 2, name = ''Bob'', email = ''b@x.com'',
          hashed_password = ''hash-of-secret2'', age = 41, is_active = False,
          created_at = 0, updated_at = None\<rparr>"

definition test_context :: crypt_context where
  "test_context = \<lparr>verify = (\<lambda>plain hashed. hashed = ''hash-of-'' @ plain),
                    hash = (\<lambda>salt plain. Inr (''hash-of-'' @ plain))\<rparr>"

section \<open>Properties of the token codec\<close>

lemmas decode_defs =
  verify_token_def jwt_decode_def validate_claims_def validate_iat_def validate_nbf_def
  validate_exp_def validate_aud_def validate_str_def validate_at_hash_def py_int_def
  timegm_def

lemmas encode_defs =
  create_access_token_def jwt_encode_def datetime_add_def datetime_min_def
  datetime_max_def timedelta_minutes_def seconds_def timegm_def

lemmas int_defs = int_of_str_def strip_def is_space_def unsigned_of_def digit_of_def

text \<open>
  What \<open>verify_token\<close> answers at second 1001 for some signed tokens: an \<open>exp\<close> that is
  a numeric string is read as a number; a string that is no number, an \<open>nbf\<close> in the
  future, a subject that is no string, an audience, another key, another algorithm and a
  past expiry are failures.
\<close>

lemma verify_token_examples:
  "verify_token (JWS [''exp'' \<mapsto> PyStr ''2800''] SECRET_KEY ALGORITHM) (seconds 1001)
     = Inr (Some [''exp'' \<mapsto> PyStr ''2800''])"
  "verify_token (JWS [''exp'' \<mapsto> PyStr ''soon''] SECRET_KEY ALGORITHM) (seconds 1001) = Inr None"
  "verify_token (JWS [''nbf'' \<mapsto> PyInt 5000] SECRET_KEY ALGORITHM) (seconds 1001) = Inr None"
  "verify_token (JWS [''sub'' \<mapsto> PyInt 123] SECRET_KEY ALGORITHM) (seconds 1001) = Inr None"
  "verify_token (JWS [''aud'' \<mapsto> PyStr ''x''] SECRET_KEY ALGORITHM) (seconds 1001) = Inr None"
  "verify_token (JWS [''exp'' \<mapsto> PyInt 2800] ''other-key'' ALGORITHM) (seconds 1001) = Inr None"
  "verify_token (JWS [''exp'' \<mapsto> PyInt 2800] SECRET_KEY ''none'') (seconds 1001) = Inr None"
  "verify_token (JWS [''exp'' \<mapsto> PyInt 1000] SECRET_KEY ALGORITHM) (seconds 1001) = Inr None"
  by (simp_all add: decode_defs seconds_def int_defs SECRET_KEY_def ALGORITHM_def)

text \<open>
  Claim C1. \<open>verify_token\<close> would raise nothing. The code does otherwise: for a
  token signed under \<open>SECRET_KEY\<close> whose payload has \<open>exp\<close> (or \<open>iat\<close>) set to
  \<open>null\<close>, \<open>jwt.decode\<close> raises \<open>TypeError\<close>, which is no \<open>JWTError\<close>; the
  \<open>except\<close> clause lets it pass, and \<open>verify_token\<close> raises it to its caller.
\<close>

theorem verify_token_raises_TypeError:
  "verify_token (JWS [''sub'' \<mapsto> PyStr ''a@x.com'', ''exp'' \<mapsto> PyNone] SECRET_KEY ALGORITHM)
     (seconds 1000) = Inl TypeError \<and>
   verify_token (JWS [''sub'' \<mapsto> PyStr ''a@x.com'', ''iat'' \<mapsto> PyNone] SECRET_KEY ALGORITHM)
     (seconds 1000) = Inl TypeError"
  by (simp add: decode_defs)

text \<open>
  Claim C3. A token issued with a time to live of zero would be expired at the next
  \<open>verify_token\<close>. The code does otherwise: \<open>timedelta(0)\<close> is false in
  \<open>if expires_delta:\<close>, the token issued at second 1000 gets the default fifteen
  minutes, and a \<open>verify_token\<close> one minute after issuance answers its payload.
\<close>

theorem zero_ttl_token_is_accepted:
  "(case create_access_token [''sub'' \<mapsto> PyStr ''a@x.com''] (Some 0) (seconds 1000) of
      Inl e \<Rightarrow> Inl e
    | Inr tok \<Rightarrow> verify_token tok (seconds 1060))
     = Inr (Some [''sub'' \<mapsto> PyStr ''a@x.com'', ''exp'' \<mapsto> PyInt 1900])"
  by (simp add: encode_defs decode_defs)

text \<open>
  Claim C4. \<open>create_access_token\<close> would set the expiry to now plus the time to live,
  and \<open>login_user\<close> would call it with thirty minutes. The code does otherwise: issued
  at second 1000 with \<open>timedelta(0)\<close>, the token has the expiry 1900, not 1000 + 0;
  and \<open>login_user\<close> raises \<open>TypeError\<close> on line 86, before it issues any token, also
  for an account's own email and password.
\<close>

theorem zero_ttl_expiry_and_login:
  "create_access_token [''sub'' \<mapsto> PyStr ''a@x.com''] (Some 0) (seconds 1000)
     = Inr (jwt_encode [''sub'' \<mapsto> PyStr ''a@x.com'', ''exp'' \<mapsto> PyInt 1900]
              SECRET_KEY ALGORITHM) \<and>
   timegm (seconds 1000 + 0) = 1000 \<and>
   authenticate_user test_context [alice, bob] ''a@x.com'' ''secret1'' = Some alice \<and>
   login_user test_context [alice, bob] ''a@x.com'' ''secret1'' (seconds 1000) = Inl TypeError"
  by (simp add: encode_defs login_user_def await_value_def authenticate_user_def
      verify_password_def test_context_def alice_def)

text \<open>
  Claim C5, as stated: for every claims mapping and every positive time to live, the
  round trip answers the claims with the expiry before issuance plus the time to live,
  and \<open>None\<close> after it. It fails in three ways. A token issued at 1000.9 s for one second
  is still answered at 1001.95 s, after its time to live, since expiry is compared in
  whole seconds. Claims whose \<open>sub\<close> is the number 123 are answered \<open>None\<close> within the
  time to live, since the library refuses a subject that is no string. And for a time to
  live of 300000000000 s no token is issued: the sum of line 46 raises
  \<open>OverflowError\<close>.
\<close>

theorem token_roundtrip_counterexample:
  "create_access_token Map.empty (Some (seconds 1)) 1000900000
     = Inr (JWS [''exp'' \<mapsto> PyInt 1001] SECRET_KEY ALGORITHM) \<and>
   (1000900000 + seconds 1 < 1001950000) \<and>
   verify_token (JWS [''exp'' \<mapsto> PyInt 1001] SECRET_KEY ALGORITHM) 1001950000
     = Inr (Some [''exp'' \<mapsto> PyInt 1001]) \<and>
   create_access_token [''sub'' \<mapsto> PyInt 123] (Some (seconds 1800)) (seconds 1000)
     = Inr (JWS [''sub'' \<mapsto> PyInt 123, ''exp'' \<mapsto> PyInt 2800] SECRET_KEY ALGORITHM) \<and>
   (seconds 1001 < seconds 1000 + seconds 1800) \<and>
   verify_token (JWS [''sub'' \<mapsto> PyInt 123, ''exp'' \<mapsto> PyInt 2800] SECRET_KEY ALGORITHM)
     (seconds 1001) = Inr None \<and>
   create_access_token Map.empty (Some (seconds 300000000000)) (seconds 1000)
     = Inl OverflowError"
  by (simp add: encode_defs decode_defs)

lemma timegm_mono: "a \<le> b \<Longrightarrow> timegm a \<le> timegm b"
  by (simp add: timegm_def zdiv_mono1)

lemma timegm_next: "a + seconds 1 \<le> b \<Longrightarrow> timegm a < timegm b"
proof -
  assume h: "a + seconds 1 \<le> b"
  have "timegm a + 1 = timegm (a + seconds 1)"
    by (simp add: timegm_def seconds_def)
  also from h have "\<dots> \<le> timegm b" by (rule timegm_mono)
  finally show ?thesis by simp
qed

lemma validate_other_upd_exp:
  "validate_iat (c(''exp'' \<mapsto> v)) = validate_iat c"
  "validate_nbf (c(''exp'' \<mapsto> v)) now = validate_nbf c now"
  "validate_aud (c(''exp'' \<mapsto> v)) = validate_aud c"
  "validate_str (c(''exp'' \<mapsto> v)) ''sub'' = validate_str c ''sub''"
  "validate_str (c(''exp'' \<mapsto> v)) ''jti'' = validate_str c ''jti''"
  "validate_at_hash (c(''exp'' \<mapsto> v)) = validate_at_hash c"
  by (simp_all add: validate_iat_def validate_nbf_def validate_aud_def validate_str_def
      validate_at_hash_def)

lemma verify_issued:
  assumes "validate_iat c = None" and "validate_nbf c (timegm now') = None"
    and "validate_aud c = None" and "validate_str c ''sub'' = None"
    and "validate_str c ''jti'' = None" and "validate_at_hash c = None"
  shows "verify_token (jwt_encode (c(''exp'' \<mapsto> PyInt x)) SECRET_KEY ALGORITHM) now' =
     (if x < timegm now' then Inr None else Inr (Some (c(''exp'' \<mapsto> PyInt x))))"
  using assms
  by (simp add: verify_token_def jwt_decode_def jwt_encode_def validate_claims_def
      validate_other_upd_exp validate_exp_def py_int_def)

text \<open>
  Claim C5, amended. Let the registered claims of \<open>c\<close> other than \<open>exp\<close> pass the
  checks of the library when the token is decoded (\<open>iat\<close> and \<open>nbf\<close> numbers, \<open>nbf\<close>
  not after the clock, no \<open>aud\<close> and no \<open>at_hash\<close>, \<open>sub\<close> and \<open>jti\<close> strings,
  each where it is present), and let the time to live \<open>t\<close> be positive with
  \<open>utcnow + t\<close> in the range of \<open>datetime\<close>. Then \<open>create_access_token\<close> issues a
  token, and \<open>verify_token\<close> of it answers the fields of \<open>c\<close> with \<open>exp\<close> set to the
  whole seconds of \<open>utcnow + t\<close> at every instant up to \<open>utcnow + t\<close>, and \<open>None\<close> at
  every instant from one second after \<open>utcnow + t\<close> on; in between, it answers \<open>None\<close>
  exactly when the clock has reached the next whole second.
\<close>

theorem token_roundtrip:
  assumes "0 < t" and "datetime_min \<le> utcnow + t" and "utcnow + t \<le> datetime_max"
    and "validate_iat c = None" and "validate_nbf c (timegm now') = None"
    and "validate_aud c = None" and "validate_str c ''sub'' = None"
    and "validate_str c ''jti'' = None" and "validate_at_hash c = None"
  shows "\<exists>tok. create_access_token c (Some t) utcnow = Inr tok \<and>
     (now' \<le> utcnow + t \<longrightarrow>
        verify_token tok now' = Inr (Some (c(''exp'' \<mapsto> PyInt (timegm (utcnow + t)))))) \<and>
     (utcnow + t + seconds 1 \<le> now' \<longrightarrow> verify_token tok now' = Inr None) \<and>
     verify_token tok now' =
       (if timegm (utcnow + t) < timegm now' then Inr None
        else Inr (Some (c(''exp'' \<mapsto> PyInt (timegm (utcnow + t))))))"
proof -
  let ?tok = "jwt_encode (c(''exp'' \<mapsto> PyInt (timegm (utcnow + t)))) SECRET_KEY ALGORITHM"
  from assms(1-3) have issued: "create_access_token c (Some t) utcnow = Inr ?tok"
    by (simp add: create_access_token_def datetime_add_def)
  have v: "verify_token ?tok now' =
       (if timegm (utcnow + t) < timegm now' then Inr None
        else Inr (Some (c(''exp'' \<mapsto> PyInt (timegm (utcnow + t))))))"
    using assms(4-9) by (rule verify_issued)
  have before: "now' \<le> utcnow + t \<longrightarrow>
        verify_token ?tok now' = Inr (Some (c(''exp'' \<mapsto> PyInt (timegm (utcnow + t)))))"
    using v timegm_mono [of now' "utcnow + t"] by auto
  have after: "utcnow + t + seconds 1 \<le> now' \<longrightarrow> verify_token ?tok now' = Inr None"
    using v timegm_next [of "utcnow + t" now'] by auto
  from issued before after v show ?thesis by blast
qed

theorem token_roundtrip_witness:
  "(0::int) < seconds 1800 \<and>
   datetime_min \<le> 1000900000 + seconds 1800 \<and> 1000900000 + seconds 1800 \<le> datetime_max \<and>
   validate_iat [''sub'' \<mapsto> PyStr ''a@x.com'', ''iat'' \<mapsto> PyInt 1000] = None \<and>
   validate_str [''sub'' \<mapsto> PyStr ''a@x.com'', ''iat'' \<mapsto> PyInt 1000] ''sub'' = None \<and>
   create_access_token [''sub'' \<mapsto> PyStr ''a@x.com'', ''iat'' \<mapsto> PyInt 1000]
     (Some (seconds 1800)) 1000900000
     = Inr (JWS [''sub'' \<mapsto> PyStr ''a@x.com'', ''iat'' \<mapsto> PyInt 1000, ''exp'' \<mapsto> PyInt 2800]
              SECRET_KEY ALGORITHM) \<and>
   verify_token
     (JWS [''sub'' \<mapsto> PyStr ''a@x.com'', ''iat'' \<mapsto> PyInt 1000, ''exp'' \<mapsto> PyInt 2800]
        SECRET_KEY ALGORITHM) (seconds 2800)
     = Inr (Some [''sub'' \<mapsto> PyStr ''a@x.com'', ''iat'' \<mapsto> PyInt 1000, ''exp'' \<mapsto> PyInt 2800]) \<and>
   verify_token
     (JWS [''sub'' \<mapsto> PyStr ''a@x.com'', ''iat'' \<mapsto> PyInt 1000, ''exp'' \<mapsto> PyInt 2800]
        SECRET_KEY ALGORITHM) (seconds 2802)
     = Inr None"
proof -
  let ?c = "[''sub'' \<mapsto> PyStr ''a@x.com'', ''iat'' \<mapsto> PyInt 1000]"
  let ?tok = "JWS [''sub'' \<mapsto> PyStr ''a@x.com'', ''iat'' \<mapsto> PyInt 1000, ''exp'' \<mapsto> PyInt 2800]
                SECRET_KEY ALGORITHM"
  have h1: "(0::int) < seconds 1800" by (simp add: seconds_def)
  have h2: "datetime_min \<le> 1000900000 + seconds 1800"
    by (simp add: datetime_min_def seconds_def)
  have h3: "1000900000 + seconds 1800 \<le> datetime_max"
    by (simp add: datetime_max_def seconds_def)
  have h4: "validate_iat ?c = None" by (simp add: validate_iat_def py_int_def)
  have h5: "validate_nbf ?c n = None" for n by (simp add: validate_nbf_def)
  have h6: "validate_aud ?c = None" by (simp add: validate_aud_def)
  have h7: "validate_str ?c ''sub'' = None" by (simp add: validate_str_def)
  have h8: "validate_str ?c ''jti'' = None" by (simp add: validate_str_def)
  have h9: "validate_at_hash ?c = None" by (simp add: validate_at_hash_def)
  have issued: "create_access_token ?c (Some (seconds 1800)) 1000900000 = Inr ?tok"
    by (simp add: encode_defs)
  have b: "seconds 2800 \<le> 1000900000 + seconds 1800" by (simp add: seconds_def)
  have a: "1000900000 + seconds 1800 + seconds 1 \<le> seconds 2802" by (simp add: seconds_def)
  have e: "timegm (1000900000 + seconds 1800) = 2800" by (simp add: timegm_def seconds_def)
  from token_roundtrip [OF h1 h2 h3 h4 h5 h6 h7 h8 h9, of "seconds 2800"]
  obtain tok1 where i1: "create_access_token ?c (Some (seconds 1800)) 1000900000 = Inr tok1"
    and b1: "seconds 2800 \<le> 1000900000 + seconds 1800 \<longrightarrow>
        verify_token tok1 (seconds 2800)
          = Inr (Some (?c(''exp'' \<mapsto> PyInt (timegm (1000900000 + seconds 1800)))))"
    by blast
  from i1 issued have "tok1 = ?tok" by simp
  with b1 b e
  have r1: "verify_token ?tok (seconds 2800) = Inr (Some (?c(''exp'' \<mapsto> PyInt 2800)))"
    by simp
  from token_roundtrip [OF h1 h2 h3 h4 h5 h6 h7 h8 h9, of "seconds 2802"]
  obtain tok2 where i2: "create_access_token ?c (Some (seconds 1800)) 1000900000 = Inr tok2"
    and a2: "1000900000 + seconds 1800 + seconds 1 \<le> seconds 2802 \<longrightarrow>
        verify_token tok2 (seconds 2802) = Inr None"
    by blast
  from i2 issued have "tok2 = ?tok" by simp
  with a2 a have r2: "verify_token ?tok (seconds 2802) = Inr None"
    by simp
  from h1 h2 h3 h4 h7 issued r1 r2 show ?thesis by simp
qed

text \<open>
  Claim C9. \<open>create_access_token\<close> leaves its caller's dictionary as it was: the
  dictionary at \<open>data\<close>, and every dictionary the store held before the call, is the same
  after it, whether a token is issued or \<open>OverflowError\<close> raised. The \<open>exp\<close> entry goes
  into the copy, a new dictionary, whose entries are the payload of the token.
\<close>

theorem create_access_token_frame:
  "data < length st \<Longrightarrow>
   (case create_access_token_st st data expires_delta utcnow of
      (result, st') \<Rightarrow>
        st' ! data = st ! data \<and>
        take (length st) st' = st \<and>
        length st' = Suc (length st) \<and>
        result = create_access_token (st ! data) expires_delta utcnow \<and>
        (case result of
           Inr encoded_jwt \<Rightarrow> encoded_jwt = jwt_encode (st' ! length st) SECRET_KEY ALGORITHM
         | Inl e \<Rightarrow> st' ! length st = st ! data))"
  by (auto simp: create_access_token_st_def create_access_token_def dict_copy_def
      dict_update_def Let_def nth_append split: option.splits sum.splits)

theorem create_access_token_frame_witness:
  "(0::nat) < length [[''sub'' \<mapsto> PyStr ''a@x.com'']] \<and>
   snd (create_access_token_st [[''sub'' \<mapsto> PyStr ''a@x.com'']] 0 (Some (seconds 1800))
          (seconds 1000)) ! 0
     = [''sub'' \<mapsto> PyStr ''a@x.com''] \<and>
   (snd (create_access_token_st [[''sub'' \<mapsto> PyStr ''a@x.com'']] 0 (Some (seconds 1800))
           (seconds 1000)) ! 0) ''exp''
     = None \<and>
   fst (create_access_token_st [[''sub'' \<mapsto> PyStr ''a@x.com'']] 0 (Some (seconds 1800))
          (seconds 1000))
     = create_access_token [''sub'' \<mapsto> PyStr ''a@x.com''] (Some (seconds 1800)) (seconds 1000)"
proof -
  have h: "(0::nat) < length [[''sub'' \<mapsto> PyStr ''a@x.com'']]" by simp
  from create_access_token_frame [OF h, of "Some (seconds 1800)" "seconds 1000"]
  show ?thesis by (simp split: prod.splits)
qed

section \<open>Properties of the credential hasher\<close>

text \<open>
  Claim C8, as stated: for two different secrets, the one does not verify against the
  hash of the other. It fails for two secrets of 73 bytes that differ in the last byte
  only: bcrypt digests the first 72 bytes, and these are the same.
\<close>

theorem credential_hasher_counterexample:
  "''aaaaaaaaaaaaaaaaaaaaaaaaaaaaaaaaaaaaaaaaaaaaaaaaaaaaaaaaaaaaaaaaaaaaaaaab'' \<noteq> ''aaaaaaaaaaaaaaaaaaaaaaaaaaaaaaaaaaaaaaaaaaaaaaaaaaaaaaaaaaaaaaaaaaaaaaaac'' \<and>
   get_password_hash bcrypt_context ''0123456789abcdefghijkl'' ''aaaaaaaaaaaaaaaaaaaaaaaaaaaaaaaaaaaaaaaaaaaaaaaaaaaaaaaaaaaaaaaaaaaaaaaac''
     = Inr ''$2b$12$0123456789abcdefghijklaaaaaaaaaaaaaaaaaaaaaaaaaaaaaaaaaaaaaaaaaaaaaaaaaaaaaaaaaaaaaaaaaaaaaaaa'' \<and>
   verify_password bcrypt_context ''aaaaaaaaaaaaaaaaaaaaaaaaaaaaaaaaaaaaaaaaaaaaaaaaaaaaaaaaaaaaaaaaaaaaaaaab'' ''$2b$12$0123456789abcdefghijklaaaaaaaaaaaaaaaaaaaaaaaaaaaaaaaaaaaaaaaaaaaaaaaaaaaaaaaaaaaaaaaaaaaaaaaa''"
  by (simp add: get_password_hash_def verify_password_def bcrypt_context_def
      bcrypt_ident_def MAX_PASSWORD_SIZE_def)

text \<open>
  Claim C8, amended. For every secret that passlib accepts (at most 4096 characters,
  none of them NUL) and every salt, \<open>get_password_hash\<close> answers a hash against which
  the secret verifies; two salts give two hashes, and the secret verifies against both.
  A second accepted secret verifies against that hash exactly when its first 72 bytes
  are those of the first: so it does not when the two differ within their first 72
  bytes.
\<close>

theorem credential_hasher_roundtrip:
  assumes "length salt = 22" and "length salt' = 22"
    and "length p \<le> 4096" and "CHR 0x00 \<notin> set p"
    and "length p2 \<le> 4096" and "CHR 0x00 \<notin> set p2"
  shows "\<exists>h h'. get_password_hash bcrypt_context salt p = Inr h \<and>
           get_password_hash bcrypt_context salt' p = Inr h' \<and>
           verify_password bcrypt_context p h \<and>
           verify_password bcrypt_context p h' \<and>
           (h = h') = (salt = salt') \<and>
           verify_password bcrypt_context p2 h = (take 72 p = take 72 p2)"
  using assms
  by (simp add: get_password_hash_def verify_password_def bcrypt_context_def
      bcrypt_ident_def MAX_PASSWORD_SIZE_def)

theorem credential_hasher_roundtrip_witness:
  "length ''0123456789abcdefghijkl'' = 22 \<and> length ''lkjihgfedcba9876543210'' = 22 \<and>
   length ''secret1'' \<le> 4096 \<and> CHR 0x00 \<notin> set ''secret1'' \<and>
   length ''secret2'' \<le> 4096 \<and> CHR 0x00 \<notin> set ''secret2'' \<and>
   get_password_hash bcrypt_context ''0123456789abcdefghijkl'' ''secret1''
     = Inr ''$2b$12$0123456789abcdefghijklsecret1'' \<and>
   verify_password bcrypt_context ''secret1'' ''$2b$12$0123456789abcdefghijklsecret1'' \<and>
   verify_password bcrypt_context ''secret1'' ''$2b$12$lkjihgfedcba9876543210secret1'' \<and>
   \<not> verify_password bcrypt_context ''secret2'' ''$2b$12$0123456789abcdefghijklsecret1''"
proof -
  have h1: "length ''0123456789abcdefghijkl'' = 22" by simp
  have h2: "length ''lkjihgfedcba9876543210'' = 22" by simp
  have h3: "length ''secret1'' \<le> 4096" by simp
  have h4: "CHR 0x00 \<notin> set ''secret1''" by simp
  have h5: "length ''secret2'' \<le> 4096" by simp
  have h6: "CHR 0x00 \<notin> set ''secret2''" by simp
  have g1: "get_password_hash bcrypt_context ''0123456789abcdefghijkl'' ''secret1''
     = Inr ''$2b$12$0123456789abcdefghijklsecret1''"
    by (simp add: get_password_hash_def bcrypt_context_def bcrypt_ident_def
        MAX_PASSWORD_SIZE_def)
  have g2: "get_password_hash bcrypt_context ''lkjihgfedcba9876543210'' ''secret1''
     = Inr ''$2b$12$lkjihgfedcba9876543210secret1''"
    by (simp add: get_password_hash_def bcrypt_context_def bcrypt_ident_def
        MAX_PASSWORD_SIZE_def)
  from credential_hasher_roundtrip [OF h1 h2 h3 h4 h5 h6]
  obtain h h' where a: "get_password_hash bcrypt_context ''0123456789abcdefghijkl'' ''secret1''
      = Inr h"
    and b: "get_password_hash bcrypt_context ''lkjihgfedcba9876543210'' ''secret1'' = Inr h'"
    and c: "verify_password bcrypt_context ''secret1'' h"
    and d: "verify_password bcrypt_context ''secret1'' h'"
    and e: "verify_password bcrypt_context ''secret2'' h = (take 72 ''secret1'' = take 72 ''secret2'')"
    by blast
  from a g1 have "h = ''$2b$12$0123456789abcdefghijklsecret1''" by simp
  moreover from b g2 have "h' = ''$2b$12$lkjihgfedcba9876543210secret1''" by simp
  ultimately show ?thesis using c d e g1 by simp
qed

section \<open>Properties of the principal resolver\<close>



text \<open>
  Claim C10. An account that \<open>authenticate_user\<close> answers is the store's record for
  the given email (the first row with that email), it has that email, and the given
  password verifies against its stored hash.
\<close>

theorem authenticate_user_sound:
  "authenticate_user pwd_context db email_arg password = Some u \<Longrightarrow>
   find (\<lambda>a. email a = email_arg) db = Some u \<and> u \<in> set db \<and> email u = email_arg \<and>
   verify_password pwd_context password (hashed_password u)"
  by (auto simp: authenticate_user_def find_Some_iff split: option.splits if_splits)

theorem authenticate_user_sound_witness:
  "authenticate_user test_context [alice, bob] ''b@x.com'' ''secret2'' = Some bob \<and>
   find (\<lambda>a. email a = ''b@x.com'') [alice, bob] = Some bob \<and>
   email bob = ''b@x.com'' \<and>
   verify_password test_context ''secret2'' (hashed_password bob)"
proof -
  have h: "authenticate_user test_context [alice, bob] ''b@x.com'' ''secret2'' = Some bob"
    by (simp add: authenticate_user_def verify_password_def test_context_def alice_def bob_def)
  from authenticate_user_sound [OF h] h show ?thesis by simp
qed

section \<open>Properties of the session gate\<close>

lemma verify_sub_token:
  "verify_token (JWS [''sub'' \<mapsto> PyStr s, ''exp'' \<mapsto> PyInt 2800] SECRET_KEY ALGORITHM)
     (seconds 1001)
     = Inr (Some [''sub'' \<mapsto> PyStr s, ''exp'' \<mapsto> PyInt 2800])"
  by (simp add: decode_defs seconds_def)

lemma admit_alice:
  "get_current_user
     (JWS [''sub'' \<mapsto> PyStr ''a@x.com'', ''exp'' \<mapsto> PyInt 2800] SECRET_KEY ALGORITHM)
     [alice, bob] (seconds 1001) = Inr alice"
  by (simp add: get_current_user_def verify_sub_token dict_get_def get_user_by_email_def
      alice_def)

lemma admit_bob:
  "get_current_user
     (JWS [''sub'' \<mapsto> PyStr ''b@x.com'', ''exp'' \<mapsto> PyInt 2800] SECRET_KEY ALGORITHM)
     [alice, bob] (seconds 1001) = Inr bob"
  by (simp add: get_current_user_def verify_sub_token dict_get_def get_user_by_email_def
      alice_def bob_def)



text \<open>
  Claim C6. For an account that \<open>get_current_user\<close> admitted,
  \<open>get_current_active_user\<close> answers the account itself when it is active, and raises
  the exception of status 400, "Usuario inactivo", when it is not: never the exception
  of \<open>get_current_user\<close>, and none of status 401.
\<close>

theorem get_current_active_user_gate:
  "get_current_user tok db utcnow = Inr u \<Longrightarrow>
   get_current_active_user u =
     (if is_active u then Inr u else Inl (HTTPException 400 ''Usuario inactivo'' None)) \<and>
   get_current_active_user u \<noteq> Inl credentials_exception \<and>
   (\<forall>d h. get_current_active_user u \<noteq> Inl (HTTPException 401 d h))"
  by (simp add: get_current_active_user_def credentials_exception_def)

theorem get_current_active_user_gate_witness:
  "get_current_user
     (JWS [''sub'' \<mapsto> PyStr ''a@x.com'', ''exp'' \<mapsto> PyInt 2800] SECRET_KEY ALGORITHM)
     [alice, bob] (seconds 1001) = Inr alice \<and>
   get_current_active_user alice = Inr alice \<and>
   get_current_user
     (JWS [''sub'' \<mapsto> PyStr ''b@x.com'', ''exp'' \<mapsto> PyInt 2800] SECRET_KEY ALGORITHM)
     [alice, bob] (seconds 1001) = Inr bob \<and>
   get_current_active_user bob = Inl (HTTPException 400 ''Usuario inactivo'' None)"
proof -
  have a: "is_active alice" by (simp add: alice_def)
  have b: "\<not> is_active bob" by (simp add: bob_def)
  from get_current_active_user_gate [OF admit_alice] get_current_active_user_gate [OF admit_bob]
    admit_alice admit_bob a b
  show ?thesis by simp
qed

end
